theory Spec2Isabelle
  imports Main "HOL-Library.Word"
begin

section \<open>Build configuration and status codes\<close>

type_synonym uint32_t = "32 word"

text \<open>\<^verbatim>\<open>esp_err_t\<close> is a C \<^verbatim>\<open>int\<close>.\<close>

type_synonym esp_err_t = int

text \<open>
  Modelled from the spec: the status codes of the vendor's \<^verbatim>\<open>esp_err.h\<close>, which is not
  under src/. The spec names a success status and an InvalidArgument status; the numbers
  are the vendor's (0 and 0x102).
\<close>

definition ESP_OK :: esp_err_t where
  "ESP_OK = 0"

definition ESP_ERR_INVALID_ARG :: esp_err_t where
  "ESP_ERR_INVALID_ARG = 258"

text \<open>The targets of the \<^verbatim>\<open>#if CONFIG_IDF_TARGET_...\<close> chain of Gpio.cpp.\<close>

datatype idf_target = LINUX | ESP32 | ESP32S2 | ESP32S3 | ESP32C3 | ESP32C2

fun INVALID_GPIOS :: "idf_target \<Rightarrow> uint32_t list" where
  "INVALID_GPIOS LINUX = [24]"
| "INVALID_GPIOS ESP32 = [24]"
| "INVALID_GPIOS ESP32S2 = [22, 23, 24, 25]"
| "INVALID_GPIOS ESP32S3 = [22, 23, 24, 25]"
| "INVALID_GPIOS ESP32C3 = []"
| "INVALID_GPIOS ESP32C2 = []"

text \<open>
  A build selects one target; \<^verbatim>\<open>GPIO_NUM_MAX\<close> comes from the target's SoC header, which
  is not under src/, so it is a parameter of the build (as a \<^verbatim>\<open>uint32_t\<close>: the value the
  comparison with \<^verbatim>\<open>pin_num\<close> sees).
\<close>

record build_config =
  IDF_TARGET :: idf_target
  GPIO_NUM_MAX :: uint32_t

text \<open>
  Modelled from the spec: the enumerators of the vendor's \<^verbatim>\<open>driver/gpio.h\<close>, which is not
  under src/. The spec has drive-strength codes below a maximum of 4 with
  \<^verbatim>\<open>STRONGEST\<close> at 3, and pairwise distinct codes within each enumeration; the numbers
  are the vendor's.
\<close>

definition GPIO_DRIVE_CAP_0 :: uint32_t where "GPIO_DRIVE_CAP_0 = 0"
definition GPIO_DRIVE_CAP_1 :: uint32_t where "GPIO_DRIVE_CAP_1 = 1"
definition GPIO_DRIVE_CAP_2 :: uint32_t where "GPIO_DRIVE_CAP_2 = 2"
definition GPIO_DRIVE_CAP_3 :: uint32_t where "GPIO_DRIVE_CAP_3 = 3"
definition GPIO_DRIVE_CAP_MAX :: uint32_t where "GPIO_DRIVE_CAP_MAX = 4"

definition GPIO_PULLUP_ONLY :: uint32_t where "GPIO_PULLUP_ONLY = 0"
definition GPIO_PULLDOWN_ONLY :: uint32_t where "GPIO_PULLDOWN_ONLY = 1"
definition GPIO_FLOATING :: uint32_t where "GPIO_FLOATING = 3"

definition GPIO_INTR_LOW_LEVEL :: uint32_t where "GPIO_INTR_LOW_LEVEL = 4"
definition GPIO_INTR_HIGH_LEVEL :: uint32_t where "GPIO_INTR_HIGH_LEVEL = 5"

datatype gpio_mode_t = GPIO_MODE_INPUT | GPIO_MODE_OUTPUT | GPIO_MODE_INPUT_OUTPUT_OD

section \<open>Exceptions\<close>

datatype exn = GPIOException (error: esp_err_t)

section \<open>Validation predicates\<close>

text \<open>The \<^verbatim>\<open>for (auto num : INVALID_GPIOS)\<close> loop of \<^verbatim>\<open>isValidPin\<close>.\<close>

fun isValidPin_loop :: "uint32_t \<Rightarrow> uint32_t list \<Rightarrow> esp_err_t" where
  "isValidPin_loop pin_num [] = ESP_OK"
| "isValidPin_loop pin_num (num # rest) =
     (if pin_num = num then ESP_ERR_INVALID_ARG else isValidPin_loop pin_num rest)"

definition isValidPin :: "build_config \<Rightarrow> uint32_t \<Rightarrow> esp_err_t" where
  "isValidPin cfg pin_num =
     (if pin_num \<ge> GPIO_NUM_MAX cfg then ESP_ERR_INVALID_ARG
      else isValidPin_loop pin_num (INVALID_GPIOS (IDF_TARGET cfg)))"

definition isValidDriveStrengthPin :: "uint32_t \<Rightarrow> esp_err_t" where
  "isValidDriveStrengthPin strength =
     (if strength \<ge> GPIO_DRIVE_CAP_MAX then ESP_ERR_INVALID_ARG else ESP_OK)"

section \<open>Strong value types\<close>

text \<open>
  Modelled from the spec: \<^verbatim>\<open>StrongValueComparable<uint32_t>\<close> lives in System.hpp, which is
  not under src/. The spec has it hold one immutable raw value, read back by
  \<^verbatim>\<open>get_value\<close>, with equality the equality of the raw values. Each class deriving from it
  is a datatype of its own around the raw value; the datatype's constructor is the base
  initialiser \<^verbatim>\<open>StrongValueComparable<uint32_t>(v)\<close>, without any check.
\<close>

datatype GPIONum = GPIONum_StrongValue (GPIONum_get_value: uint32_t)

datatype GPIOPullMode = GPIOPullMode_StrongValue (GPIOPullMode_get_value: uint32_t)

datatype GPIOWakeupIntrType =
  GPIOWakeupIntrType_StrongValue (GPIOWakeupIntrType_get_value: uint32_t)

datatype GPIODriveStrength =
  GPIODriveStrength_StrongValue (GPIODriveStrength_get_value: uint32_t)

datatype GPIOLevel = HIGH | LOW

text \<open>\<^verbatim>\<open>GPIONumBase(uint32_t pin)\<close>: the constructor throws when the check fails.\<close>

definition GPIONumBase :: "build_config \<Rightarrow> uint32_t \<Rightarrow> exn + GPIONum" where
  "GPIONumBase cfg pin =
     (let pin_check_result = isValidPin cfg pin
      in if pin_check_result \<noteq> ESP_OK then Inl (GPIOException pin_check_result)
         else Inr (GPIONum_StrongValue pin))"

text \<open>\<^verbatim>\<open>GPIODriveStrength(uint32_t strength)\<close>.\<close>

definition GPIODriveStrength_ctor :: "uint32_t \<Rightarrow> exn + GPIODriveStrength" where
  "GPIODriveStrength_ctor strength =
     (let strength_check_result = isValidDriveStrengthPin strength
      in if strength_check_result \<noteq> ESP_OK then Inl (GPIOException strength_check_result)
         else Inr (GPIODriveStrength_StrongValue strength))"

text \<open>The private constructors of the two enumeration-like classes check nothing.\<close>

definition GPIOPullMode_ctor :: "uint32_t \<Rightarrow> GPIOPullMode" where
  "GPIOPullMode_ctor pull_mode = GPIOPullMode_StrongValue pull_mode"

definition GPIOWakeupIntrType_ctor :: "uint32_t \<Rightarrow> GPIOWakeupIntrType" where
  "GPIOWakeupIntrType_ctor interrupt_level = GPIOWakeupIntrType_StrongValue interrupt_level"

subsection \<open>The static creation methods\<close>

definition FLOATING :: GPIOPullMode where
  "FLOATING = GPIOPullMode_ctor GPIO_FLOATING"

definition PULLUP :: GPIOPullMode where
  "PULLUP = GPIOPullMode_ctor GPIO_PULLUP_ONLY"

definition PULLDOWN :: GPIOPullMode where
  "PULLDOWN = GPIOPullMode_ctor GPIO_PULLDOWN_ONLY"

definition LOW_LEVEL :: GPIOWakeupIntrType where
  "LOW_LEVEL = GPIOWakeupIntrType_ctor GPIO_INTR_LOW_LEVEL"

definition HIGH_LEVEL :: GPIOWakeupIntrType where
  "HIGH_LEVEL = GPIOWakeupIntrType_ctor GPIO_INTR_HIGH_LEVEL"

definition WEAK :: "exn + GPIODriveStrength" where
  "WEAK = GPIODriveStrength_ctor GPIO_DRIVE_CAP_0"

definition LESS_WEAK :: "exn + GPIODriveStrength" where
  "LESS_WEAK = GPIODriveStrength_ctor GPIO_DRIVE_CAP_1"

definition MEDIUM :: "exn + GPIODriveStrength" where
  "MEDIUM = GPIODriveStrength_ctor GPIO_DRIVE_CAP_2"

definition STRONGEST :: "exn + GPIODriveStrength" where
  "STRONGEST = GPIODriveStrength_ctor GPIO_DRIVE_CAP_3"

definition DEFAULT :: "exn + GPIODriveStrength" where
  "DEFAULT = MEDIUM"

section \<open>The driver\<close>

text \<open>
  The driver functions of \<^verbatim>\<open>driver/gpio.h\<close> are external C functions: what they do to the
  hardware is outside the repository. A call is kept as a value, with the pin number and
  the other arguments as the 32-bit values that \<^verbatim>\<open>get_value\<close> hands over.
\<close>

datatype driver_call =
    gpio_reset_pin uint32_t
  | gpio_hold_en uint32_t
  | gpio_hold_dis uint32_t
  | gpio_set_drive_capability uint32_t uint32_t
  | gpio_get_drive_capability uint32_t
  | gpio_set_direction uint32_t gpio_mode_t
  | gpio_set_level uint32_t uint32_t
  | gpio_get_level uint32_t
  | gpio_set_pull_mode uint32_t uint32_t
  | gpio_wakeup_enable uint32_t uint32_t
  | gpio_wakeup_disable uint32_t

text \<open>
  What a call gives back: the C function's return value (an \<^verbatim>\<open>esp_err_t\<close>, or the level
  for \<^verbatim>\<open>gpio_get_level\<close>) and, for \<^verbatim>\<open>gpio_get_drive_capability\<close>, what it wrote to
  \<^verbatim>\<open>*strength\<close>.
\<close>

record driver_reply =
  ret :: int
  strength_out :: uint32_t

text \<open>
  The driver-facing state is the list of the calls issued so far, oldest first, each with
  its reply. The driver is a parameter: its reply to a call may depend on everything
  issued before, and nothing else is assumed of it.
\<close>

type_synonym trace = "(driver_call \<times> driver_reply) list"

type_synonym driver = "trace \<Rightarrow> driver_call \<Rightarrow> driver_reply"

definition call_driver :: "driver \<Rightarrow> driver_call \<Rightarrow> trace \<Rightarrow> driver_reply \<times> trace" where
  "call_driver drv c tr = (let r = drv tr c in (r, tr @ [(c, r)]))"

section \<open>Throwing code as state passing\<close>

text \<open>
  A constructor or method takes the trace and returns the trace it leaves, with either
  the exception it threw or its result.
\<close>

type_synonym 'a action = "trace \<Rightarrow> (exn + 'a) \<times> trace"

definition return_action :: "'a \<Rightarrow> 'a action" where
  "return_action x tr = (Inr x, tr)"

text \<open>Evaluating an expression that touches no driver: it throws or gives a value.\<close>

definition eval_action :: "exn + 'a \<Rightarrow> 'a action" where
  "eval_action r tr = (r, tr)"

text \<open>One statement after another: an exception of the first skips the second.\<close>

definition and_then :: "'a action \<Rightarrow> ('a \<Rightarrow> 'b action) \<Rightarrow> 'b action" where
  "and_then m f tr = (case m tr of (Inl e, tr1) \<Rightarrow> (Inl e, tr1) | (Inr x, tr1) \<Rightarrow> f x tr1)"

text \<open>
  Modelled from the spec: \<^verbatim>\<open>CHECK_THROW_SPECIFIC\<close> is a macro of Exceptions.hpp, which is
  not under src/. The spec has one mechanism that turns a non-success status into a typed
  failure carrying that status.
\<close>

definition CHECK_THROW_SPECIFIC :: "esp_err_t \<Rightarrow> exn + unit" where
  "CHECK_THROW_SPECIFIC err = (if err \<noteq> ESP_OK then Inl (GPIOException err) else Inr ())"

text \<open>\<^verbatim>\<open>GPIO_CHECK_THROW(f(args))\<close> for a driver function \<^verbatim>\<open>f\<close>.\<close>

definition GPIO_CHECK_THROW :: "driver \<Rightarrow> driver_call \<Rightarrow> unit action" where
  "GPIO_CHECK_THROW drv c tr =
     (let (r, tr1) = call_driver drv c tr in (CHECK_THROW_SPECIFIC (ret r), tr1))"

section \<open>The pin classes\<close>

datatype GPIO = GPIO_members (gpio_num: GPIONum)

datatype PinOutput = PinOutput_derived (PinOutput_GPIO: GPIO)

datatype PinInput = PinInput_derived (PinInput_GPIO: GPIO)

datatype PinOutputInput = PinOutputInput_derived (PinOutputInput_PinInput: PinInput)

subsection \<open>\<^verbatim>\<open>GPIO\<close>\<close>

definition GPIO_ctor :: "driver \<Rightarrow> GPIONum \<Rightarrow> GPIO action" where
  "GPIO_ctor drv num =
     and_then (GPIO_CHECK_THROW drv (gpio_reset_pin (GPIONum_get_value num)))
       (\<lambda>_. return_action (GPIO_members num))"

definition GPIO_holdEnable :: "driver \<Rightarrow> GPIO \<Rightarrow> unit action" where
  "GPIO_holdEnable drv this =
     GPIO_CHECK_THROW drv (gpio_hold_en (GPIONum_get_value (gpio_num this)))"

definition GPIO_holdDisable :: "driver \<Rightarrow> GPIO \<Rightarrow> unit action" where
  "GPIO_holdDisable drv this =
     GPIO_CHECK_THROW drv (gpio_hold_dis (GPIONum_get_value (gpio_num this)))"

definition GPIO_setDriveStrength :: "driver \<Rightarrow> GPIO \<Rightarrow> GPIODriveStrength \<Rightarrow> unit action" where
  "GPIO_setDriveStrength drv this strength =
     GPIO_CHECK_THROW drv
       (gpio_set_drive_capability (GPIONum_get_value (gpio_num this))
          (GPIODriveStrength_get_value strength))"

definition GPIO_getDriveStrength :: "driver \<Rightarrow> GPIO \<Rightarrow> GPIODriveStrength action" where
  "GPIO_getDriveStrength drv this tr =
     (let (r, tr1) =
        call_driver drv (gpio_get_drive_capability (GPIONum_get_value (gpio_num this))) tr
      in case CHECK_THROW_SPECIFIC (ret r) of
           Inl e \<Rightarrow> (Inl e, tr1)
         | Inr _ \<Rightarrow> (GPIODriveStrength_ctor (strength_out r), tr1))"

subsection \<open>\<^verbatim>\<open>PinOutput\<close>\<close>

definition PinOutput_ctor :: "driver \<Rightarrow> GPIONum \<Rightarrow> PinOutput action" where
  "PinOutput_ctor drv num =
     and_then (GPIO_ctor drv num) (\<lambda>base.
       and_then
         (GPIO_CHECK_THROW drv
            (gpio_set_direction (GPIONum_get_value (gpio_num base)) GPIO_MODE_OUTPUT))
         (\<lambda>_. return_action (PinOutput_derived base)))"

definition PinOutput_setHigh :: "driver \<Rightarrow> PinOutput \<Rightarrow> unit action" where
  "PinOutput_setHigh drv this =
     GPIO_CHECK_THROW drv
       (gpio_set_level (GPIONum_get_value (gpio_num (PinOutput_GPIO this))) 1)"

definition PinOutput_setLow :: "driver \<Rightarrow> PinOutput \<Rightarrow> unit action" where
  "PinOutput_setLow drv this =
     GPIO_CHECK_THROW drv
       (gpio_set_level (GPIONum_get_value (gpio_num (PinOutput_GPIO this))) 0)"

subsection \<open>\<^verbatim>\<open>PinInput\<close>\<close>

definition PinInput_ctor :: "driver \<Rightarrow> GPIONum \<Rightarrow> PinInput action" where
  "PinInput_ctor drv num =
     and_then (GPIO_ctor drv num) (\<lambda>base.
       and_then
         (GPIO_CHECK_THROW drv
            (gpio_set_direction (GPIONum_get_value (gpio_num base)) GPIO_MODE_INPUT))
         (\<lambda>_. return_action (PinInput_derived base)))"

text \<open>\<^verbatim>\<open>getLevel\<close> is \<^verbatim>\<open>noexcept\<close> and has no throwing statement.\<close>

definition PinInput_getLevel :: "driver \<Rightarrow> PinInput \<Rightarrow> GPIOLevel action" where
  "PinInput_getLevel drv this tr =
     (let (r, tr1) =
        call_driver drv (gpio_get_level (GPIONum_get_value (gpio_num (PinInput_GPIO this)))) tr;
          level = ret r
      in if level \<noteq> 0 then (Inr HIGH, tr1) else (Inr LOW, tr1))"

definition PinInput_setPullMode :: "driver \<Rightarrow> PinInput \<Rightarrow> GPIOPullMode \<Rightarrow> unit action" where
  "PinInput_setPullMode drv this mode =
     GPIO_CHECK_THROW drv
       (gpio_set_pull_mode (GPIONum_get_value (gpio_num (PinInput_GPIO this)))
          (GPIOPullMode_get_value mode))"

definition PinInput_wakeupEnable ::
  "driver \<Rightarrow> PinInput \<Rightarrow> GPIOWakeupIntrType \<Rightarrow> unit action" where
  "PinInput_wakeupEnable drv this interrupt_type =
     GPIO_CHECK_THROW drv
       (gpio_wakeup_enable (GPIONum_get_value (gpio_num (PinInput_GPIO this)))
          (GPIOWakeupIntrType_get_value interrupt_type))"

definition PinInput_wakeupDisable :: "driver \<Rightarrow> PinInput \<Rightarrow> unit action" where
  "PinInput_wakeupDisable drv this =
     GPIO_CHECK_THROW drv
       (gpio_wakeup_disable (GPIONum_get_value (gpio_num (PinInput_GPIO this))))"

subsection \<open>\<^verbatim>\<open>PinOutputInput\<close>\<close>

definition PinOutputInput_ctor :: "driver \<Rightarrow> GPIONum \<Rightarrow> PinOutputInput action" where
  "PinOutputInput_ctor drv num =
     and_then (PinInput_ctor drv num) (\<lambda>base.
       and_then
         (GPIO_CHECK_THROW drv
            (gpio_set_direction (GPIONum_get_value (gpio_num (PinInput_GPIO base)))
               GPIO_MODE_INPUT_OUTPUT_OD))
         (\<lambda>_. return_action (PinOutputInput_derived base)))"

definition PinOutputInput_setFloating :: "driver \<Rightarrow> PinOutputInput \<Rightarrow> unit action" where
  "PinOutputInput_setFloating drv this =
     GPIO_CHECK_THROW drv
       (gpio_set_level
          (GPIONum_get_value (gpio_num (PinInput_GPIO (PinOutputInput_PinInput this)))) 1)"

definition PinOutputInput_setLow :: "driver \<Rightarrow> PinOutputInput \<Rightarrow> unit action" where
  "PinOutputInput_setLow drv this =
     GPIO_CHECK_THROW drv
       (gpio_set_level
          (GPIONum_get_value (gpio_num (PinInput_GPIO (PinOutputInput_PinInput this)))) 0)"

subsection \<open>Constructing a pin object from a raw pin number\<close>

text \<open>
  The calling expressions \<^verbatim>\<open>PinOutput(GPIONum(p))\<close>, \<^verbatim>\<open>PinInput(GPIONum(p))\<close> and
  \<^verbatim>\<open>PinOutputInput(GPIONum(p))\<close>: the argument is constructed first, and its exception
  leaves the pin constructor uncalled.
\<close>

definition PinOutput_of :: "build_config \<Rightarrow> driver \<Rightarrow> uint32_t \<Rightarrow> PinOutput action" where
  "PinOutput_of cfg drv p = and_then (eval_action (GPIONumBase cfg p)) (PinOutput_ctor drv)"

definition PinInput_of :: "build_config \<Rightarrow> driver \<Rightarrow> uint32_t \<Rightarrow> PinInput action" where
  "PinInput_of cfg drv p = and_then (eval_action (GPIONumBase cfg p)) (PinInput_ctor drv)"

definition PinOutputInput_of ::
  "build_config \<Rightarrow> driver \<Rightarrow> uint32_t \<Rightarrow> PinOutputInput action" where
  "PinOutputInput_of cfg drv p =
     and_then (eval_action (GPIONumBase cfg p)) (PinOutputInput_ctor drv)"

section \<open>Concrete builds and drivers\<close>

text \<open>The spec's example build: reserved pin 24, 25 pins.\<close>

definition example_build :: build_config where
  "example_build = \<lparr>IDF_TARGET = ESP32, GPIO_NUM_MAX = 25\<rparr>"

text \<open>A driver whose every call succeeds, reading level 1 and drive capability 2.\<close>

definition ok_driver :: driver where
  "ok_driver tr c =
     (case c of gpio_get_level _ \<Rightarrow> \<lparr>ret = 1, strength_out = 0\<rparr>
      | gpio_get_drive_capability _ \<Rightarrow> \<lparr>ret = ESP_OK, strength_out = 2\<rparr>
      | _ \<Rightarrow> \<lparr>ret = ESP_OK, strength_out = 0\<rparr>)"

text \<open>A driver whose every call reports the status \<open>err\<close>.\<close>

definition failing_driver :: "esp_err_t \<Rightarrow> driver" where
  "failing_driver err tr c = \<lparr>ret = err, strength_out = 0\<rparr>"

text \<open>A driver that succeeds on its first \<open>n\<close> calls and reports \<open>err\<close> afterwards.\<close>

definition failing_after :: "nat \<Rightarrow> esp_err_t \<Rightarrow> driver" where
  "failing_after n err tr c =
     (if length tr < n then \<lparr>ret = ESP_OK, strength_out = 0\<rparr>
      else \<lparr>ret = err, strength_out = 0\<rparr>)"

text \<open>A driver that succeeds and reports the drive capability \<open>code\<close>.\<close>

definition reporting_driver :: "uint32_t \<Rightarrow> driver" where
  "reporting_driver code tr c = \<lparr>ret = ESP_OK, strength_out = code\<rparr>"

section \<open>Reading a trace\<close>

text \<open>
  What a pin constructor, started on the trace \<open>tr\<close>, left as its outcome \<open>out\<close> and
  appended as the events \<open>evs\<close>: the first event is the reset of pin \<open>p\<close> and the only
  reset; every later event programs the direction of \<open>p\<close>; each event holds the driver's
  reply to that call on the trace before it; an event with a non-success status makes the
  outcome the exception carrying that status; and when every event reports success there is
  an object and the last event programmed the direction \<open>mode\<close>.
\<close>

abbreviation (input) resets_then_programs ::
  "driver \<Rightarrow> uint32_t \<Rightarrow> gpio_mode_t \<Rightarrow> trace \<Rightarrow> (exn + 'a) \<times> trace \<Rightarrow> trace \<Rightarrow> bool" where
  "resets_then_programs drv p mode tr out evs \<equiv>
     snd out = tr @ evs \<and> evs \<noteq> [] \<and>
     hd evs = (gpio_reset_pin p, drv tr (gpio_reset_pin p)) \<and>
     count_list (map fst evs) (gpio_reset_pin p) = 1 \<and>
     (\<forall>e\<in>set (tl evs). \<exists>m. fst e = gpio_set_direction p m) \<and>
     (\<forall>i<length evs. snd (evs ! i) = drv (tr @ take i evs) (fst (evs ! i))) \<and>
     (\<forall>e\<in>set evs. ret (snd e) \<noteq> ESP_OK \<longrightarrow> fst out = Inl (GPIOException (ret (snd e)))) \<and>
     ((\<forall>e\<in>set evs. ret (snd e) = ESP_OK) \<longrightarrow>
        (\<exists>obj. fst out = Inr obj) \<and> fst (last evs) = gpio_set_direction p mode)"

section \<open>Properties of the validated value types\<close>

lemma isValidPin_loop_eq:
  "isValidPin_loop pin_num nums = (if pin_num \<in> set nums then ESP_ERR_INVALID_ARG else ESP_OK)"
  by (induction nums) auto

lemma ESP_ERR_INVALID_ARG_not_OK: "ESP_ERR_INVALID_ARG \<noteq> ESP_OK"
  by (simp add: ESP_ERR_INVALID_ARG_def ESP_OK_def)

lemma isValidPin_eq:
  "isValidPin cfg pin_num =
     (if pin_num < GPIO_NUM_MAX cfg \<and> pin_num \<notin> set (INVALID_GPIOS (IDF_TARGET cfg))
      then ESP_OK else ESP_ERR_INVALID_ARG)"
  by (auto simp: isValidPin_def isValidPin_loop_eq)

text \<open>
  C1. Constructing a \<^verbatim>\<open>GPIONum\<close> from any 32-bit unsigned \<open>p\<close> yields the value holding
  \<open>p\<close> exactly when \<open>p\<close> is below the build's \<^verbatim>\<open>GPIO_NUM_MAX\<close> and is not one of the
  target's \<^verbatim>\<open>INVALID_GPIOS\<close>; in every other case it throws a \<^verbatim>\<open>GPIOException\<close> carrying
  \<^verbatim>\<open>ESP_ERR_INVALID_ARG\<close>, and no value is produced.
\<close>

theorem GPIONum_construction:
  "GPIONumBase cfg p =
     (if p < GPIO_NUM_MAX cfg \<and> p \<notin> set (INVALID_GPIOS (IDF_TARGET cfg))
      then Inr (GPIONum_StrongValue p)
      else Inl (GPIOException ESP_ERR_INVALID_ARG))"
  by (simp add: GPIONumBase_def isValidPin_eq ESP_ERR_INVALID_ARG_not_OK)

section \<open>The pin constructors\<close>

lemma GPIO_CHECK_THROW_eq:
  "GPIO_CHECK_THROW drv c tr =
     (if ret (drv tr c) \<noteq> ESP_OK then Inl (GPIOException (ret (drv tr c))) else Inr (),
      tr @ [(c, drv tr c)])"
  by (simp add: GPIO_CHECK_THROW_def call_driver_def CHECK_THROW_SPECIFIC_def Let_def)

lemma GPIO_ctor_eq:
  "GPIO_ctor drv num tr =
     (if ret (drv tr (gpio_reset_pin (GPIONum_get_value num))) \<noteq> ESP_OK
      then Inl (GPIOException (ret (drv tr (gpio_reset_pin (GPIONum_get_value num)))))
      else Inr (GPIO_members num),
      tr @ [(gpio_reset_pin (GPIONum_get_value num),
             drv tr (gpio_reset_pin (GPIONum_get_value num)))])"
  by (simp add: GPIO_ctor_def and_then_def GPIO_CHECK_THROW_eq return_action_def)

text \<open>After a reset that succeeded, program the direction \<open>mode\<close>.\<close>

lemma reset_then_direction:
  "and_then (GPIO_ctor drv num) (\<lambda>base.
       and_then
         (GPIO_CHECK_THROW drv (gpio_set_direction (GPIONum_get_value (gpio_num base)) mode))
         (\<lambda>_. return_action (mk base))) tr =
   (let c1 = gpio_reset_pin (GPIONum_get_value num); r1 = drv tr c1; tr1 = tr @ [(c1, r1)];
        c2 = gpio_set_direction (GPIONum_get_value num) mode; r2 = drv tr1 c2
    in if ret r1 \<noteq> ESP_OK then (Inl (GPIOException (ret r1)), tr1)
       else if ret r2 \<noteq> ESP_OK then (Inl (GPIOException (ret r2)), tr1 @ [(c2, r2)])
       else (Inr (mk (GPIO_members num)), tr1 @ [(c2, r2)]))"
  by (simp add: and_then_def GPIO_ctor_eq GPIO_CHECK_THROW_eq return_action_def Let_def)

lemma PinOutput_ctor_eq:
  "PinOutput_ctor drv num tr =
   (let c1 = gpio_reset_pin (GPIONum_get_value num); r1 = drv tr c1; tr1 = tr @ [(c1, r1)];
        c2 = gpio_set_direction (GPIONum_get_value num) GPIO_MODE_OUTPUT; r2 = drv tr1 c2
    in if ret r1 \<noteq> ESP_OK then (Inl (GPIOException (ret r1)), tr1)
       else if ret r2 \<noteq> ESP_OK then (Inl (GPIOException (ret r2)), tr1 @ [(c2, r2)])
       else (Inr (PinOutput_derived (GPIO_members num)), tr1 @ [(c2, r2)]))"
  unfolding PinOutput_ctor_def by (rule reset_then_direction)

lemma PinInput_ctor_eq:
  "PinInput_ctor drv num tr =
   (let c1 = gpio_reset_pin (GPIONum_get_value num); r1 = drv tr c1; tr1 = tr @ [(c1, r1)];
        c2 = gpio_set_direction (GPIONum_get_value num) GPIO_MODE_INPUT; r2 = drv tr1 c2
    in if ret r1 \<noteq> ESP_OK then (Inl (GPIOException (ret r1)), tr1)
       else if ret r2 \<noteq> ESP_OK then (Inl (GPIOException (ret r2)), tr1 @ [(c2, r2)])
       else (Inr (PinInput_derived (GPIO_members num)), tr1 @ [(c2, r2)]))"
  unfolding PinInput_ctor_def by (rule reset_then_direction)

lemma PinOutputInput_ctor_eq:
  "PinOutputInput_ctor drv num tr =
   (let c1 = gpio_reset_pin (GPIONum_get_value num); r1 = drv tr c1; tr1 = tr @ [(c1, r1)];
        c2 = gpio_set_direction (GPIONum_get_value num) GPIO_MODE_INPUT; r2 = drv tr1 c2;
        tr2 = tr1 @ [(c2, r2)];
        c3 = gpio_set_direction (GPIONum_get_value num) GPIO_MODE_INPUT_OUTPUT_OD;
        r3 = drv tr2 c3
    in if ret r1 \<noteq> ESP_OK then (Inl (GPIOException (ret r1)), tr1)
       else if ret r2 \<noteq> ESP_OK then (Inl (GPIOException (ret r2)), tr2)
       else if ret r3 \<noteq> ESP_OK then (Inl (GPIOException (ret r3)), tr2 @ [(c3, r3)])
       else (Inr (PinOutputInput_derived (PinInput_derived (GPIO_members num))),
             tr2 @ [(c3, r3)]))"
  by (simp add: PinOutputInput_ctor_def and_then_def PinInput_ctor_eq GPIO_CHECK_THROW_eq
      return_action_def Let_def)

lemma less_3_cases: "i < (3::nat) \<Longrightarrow> i = 0 \<or> i = Suc 0 \<or> i = Suc (Suc 0)"
  by arith

lemma PinOutput_ctor_contract:
  "resets_then_programs drv (GPIONum_get_value n) GPIO_MODE_OUTPUT tr
     (PinOutput_ctor drv n tr) (drop (length tr) (snd (PinOutput_ctor drv n tr)))"
  by (auto simp: PinOutput_ctor_eq Let_def dest!: less_2_cases)

lemma PinInput_ctor_contract:
  "resets_then_programs drv (GPIONum_get_value n) GPIO_MODE_INPUT tr
     (PinInput_ctor drv n tr) (drop (length tr) (snd (PinInput_ctor drv n tr)))"
  by (auto simp: PinInput_ctor_eq Let_def dest!: less_2_cases)

lemma PinOutputInput_ctor_contract:
  "resets_then_programs drv (GPIONum_get_value n) GPIO_MODE_INPUT_OUTPUT_OD tr
     (PinOutputInput_ctor drv n tr) (drop (length tr) (snd (PinOutputInput_ctor drv n tr)))"
  by (auto simp: PinOutputInput_ctor_eq Let_def dest!: less_2_cases less_3_cases)

lemma ESP_OK_0: "ESP_OK = 0"
  by (simp add: ESP_OK_def)

text \<open>
  C2. Each of the three pin constructors, on any pin number, issues the reset of the pin
  first and only once, and programs a direction only after it. A call that reports a
  non-success status ends the construction with the exception carrying that status, and no
  object; when every call reports success the object is produced and the last call
  programmed the constructor's own direction.
\<close>

theorem constructors_reset_then_program_direction:
  "resets_then_programs drv (GPIONum_get_value n) GPIO_MODE_OUTPUT tr
     (PinOutput_ctor drv n tr) (drop (length tr) (snd (PinOutput_ctor drv n tr))) \<and>
   resets_then_programs drv (GPIONum_get_value n) GPIO_MODE_INPUT tr
     (PinInput_ctor drv n tr) (drop (length tr) (snd (PinInput_ctor drv n tr))) \<and>
   resets_then_programs drv (GPIONum_get_value n) GPIO_MODE_INPUT_OUTPUT_OD tr
     (PinOutputInput_ctor drv n tr) (drop (length tr) (snd (PinOutputInput_ctor drv n tr)))"
  using PinOutput_ctor_contract [of drv n tr] PinInput_ctor_contract [of drv n tr]
    PinOutputInput_ctor_contract [of drv n tr]
  by blast

theorem constructors_reset_then_program_direction_witness:
  "PinOutput_ctor ok_driver (GPIONum_StrongValue 3) [] =
     (Inr (PinOutput_derived (GPIO_members (GPIONum_StrongValue 3))),
      [(gpio_reset_pin 3, \<lparr>ret = 0, strength_out = 0\<rparr>),
       (gpio_set_direction 3 GPIO_MODE_OUTPUT, \<lparr>ret = 0, strength_out = 0\<rparr>)]) \<and>
   PinInput_ctor ok_driver (GPIONum_StrongValue 3) [] =
     (Inr (PinInput_derived (GPIO_members (GPIONum_StrongValue 3))),
      [(gpio_reset_pin 3, \<lparr>ret = 0, strength_out = 0\<rparr>),
       (gpio_set_direction 3 GPIO_MODE_INPUT, \<lparr>ret = 0, strength_out = 0\<rparr>)]) \<and>
   PinOutputInput_ctor ok_driver (GPIONum_StrongValue 3) [] =
     (Inr (PinOutputInput_derived (PinInput_derived (GPIO_members (GPIONum_StrongValue 3)))),
      [(gpio_reset_pin 3, \<lparr>ret = 0, strength_out = 0\<rparr>),
       (gpio_set_direction 3 GPIO_MODE_INPUT, \<lparr>ret = 0, strength_out = 0\<rparr>),
       (gpio_set_direction 3 GPIO_MODE_INPUT_OUTPUT_OD, \<lparr>ret = 0, strength_out = 0\<rparr>)]) \<and>
   PinOutput_ctor (failing_after 1 263) (GPIONum_StrongValue 3) [] =
     (Inl (GPIOException 263),
      [(gpio_reset_pin 3, \<lparr>ret = 0, strength_out = 0\<rparr>),
       (gpio_set_direction 3 GPIO_MODE_OUTPUT, \<lparr>ret = 263, strength_out = 0\<rparr>)]) \<and>
   PinInput_ctor (failing_driver 263) (GPIONum_StrongValue 3) [] =
     (Inl (GPIOException 263), [(gpio_reset_pin 3, \<lparr>ret = 263, strength_out = 0\<rparr>)])"
  using constructors_reset_then_program_direction [of ok_driver "GPIONum_StrongValue 3" "[]"]
    constructors_reset_then_program_direction [of "failing_after 1 263" "GPIONum_StrongValue 3" "[]"]
    constructors_reset_then_program_direction [of "failing_driver 263" "GPIONum_StrongValue 3" "[]"]
  by (simp add: PinOutput_ctor_eq PinInput_ctor_eq PinOutputInput_ctor_eq ok_driver_def
      failing_after_def failing_driver_def ESP_OK_0 Let_def)

section \<open>Invalid pins, drive strengths, factories and methods\<close>

lemma GPIONumBase_invalid:
  "GPIO_NUM_MAX cfg \<le> p \<or> p \<in> set (INVALID_GPIOS (IDF_TARGET cfg)) \<Longrightarrow>
   GPIONumBase cfg p = Inl (GPIOException ESP_ERR_INVALID_ARG)"
  by (auto simp: GPIONumBase_def isValidPin_eq ESP_ERR_INVALID_ARG_not_OK)

text \<open>
  C3. For a pin number that is out of range or reserved on the target, each of
  \<^verbatim>\<open>PinOutput(GPIONum(p))\<close>, \<^verbatim>\<open>PinInput(GPIONum(p))\<close> and \<^verbatim>\<open>PinOutputInput(GPIONum(p))\<close>
  throws the \<^verbatim>\<open>GPIOException\<close> of the pin check and leaves the trace as it was: no driver
  call, not even the reset, is issued.
\<close>

theorem invalid_pin_fails_before_any_driver_call:
  assumes "GPIO_NUM_MAX cfg \<le> p \<or> p \<in> set (INVALID_GPIOS (IDF_TARGET cfg))"
  shows "PinOutput_of cfg drv p tr = (Inl (GPIOException ESP_ERR_INVALID_ARG), tr) \<and>
         PinInput_of cfg drv p tr = (Inl (GPIOException ESP_ERR_INVALID_ARG), tr) \<and>
         PinOutputInput_of cfg drv p tr = (Inl (GPIOException ESP_ERR_INVALID_ARG), tr)"
  using GPIONumBase_invalid [OF assms]
  by (simp add: PinOutput_of_def PinInput_of_def PinOutputInput_of_def and_then_def
      eval_action_def)

theorem invalid_pin_fails_before_any_driver_call_witness:
  "(24 :: uint32_t) \<in> set (INVALID_GPIOS (IDF_TARGET example_build)) \<and>
   PinOutput_of example_build ok_driver 24 [] = (Inl (GPIOException ESP_ERR_INVALID_ARG), []) \<and>
   PinInput_of example_build ok_driver 24 [] = (Inl (GPIOException ESP_ERR_INVALID_ARG), []) \<and>
   PinOutputInput_of example_build ok_driver 24 [] =
     (Inl (GPIOException ESP_ERR_INVALID_ARG), []) \<and>
   GPIO_NUM_MAX example_build \<le> 25 \<and>
   PinOutput_of example_build ok_driver 25 [] = (Inl (GPIOException ESP_ERR_INVALID_ARG), [])"
proof -
  have reserved: "(24 :: uint32_t) \<in> set (INVALID_GPIOS (IDF_TARGET example_build))"
    by (simp add: example_build_def)
  have beyond: "GPIO_NUM_MAX example_build \<le> 25"
    by (simp add: example_build_def)
  from reserved beyond
    invalid_pin_fails_before_any_driver_call [of example_build 24 ok_driver "[]"]
    invalid_pin_fails_before_any_driver_call [of example_build 25 ok_driver "[]"]
  show ?thesis by blast
qed

text \<open>
  C4. Constructing a \<^verbatim>\<open>GPIODriveStrength\<close> from any 32-bit unsigned \<open>s\<close> succeeds exactly
  when \<open>s\<close> is below \<^verbatim>\<open>GPIO_DRIVE_CAP_MAX\<close>, and throws a \<^verbatim>\<open>GPIOException\<close> carrying
  \<^verbatim>\<open>ESP_ERR_INVALID_ARG\<close> otherwise. With the maximum at 4, construction from 4 fails and
  construction from 3 succeeds and equals \<^verbatim>\<open>STRONGEST()\<close>.
\<close>

theorem GPIODriveStrength_construction:
  "GPIODriveStrength_ctor s =
     (if s < GPIO_DRIVE_CAP_MAX then Inr (GPIODriveStrength_StrongValue s)
      else Inl (GPIOException ESP_ERR_INVALID_ARG)) \<and>
   GPIO_DRIVE_CAP_MAX = 4 \<and>
   GPIODriveStrength_ctor 4 = Inl (GPIOException ESP_ERR_INVALID_ARG) \<and>
   GPIODriveStrength_ctor 3 = Inr (GPIODriveStrength_StrongValue 3) \<and>
   GPIODriveStrength_ctor 3 = STRONGEST"
  by (auto simp: GPIODriveStrength_ctor_def isValidDriveStrengthPin_def STRONGEST_def
      GPIO_DRIVE_CAP_MAX_def GPIO_DRIVE_CAP_3_def ESP_ERR_INVALID_ARG_not_OK)

text \<open>
  C5. The four drive-strength factories return a value (they do not throw) and are pairwise
  different, and \<^verbatim>\<open>DEFAULT()\<close> is \<^verbatim>\<open>MEDIUM()\<close>; the three pull-mode factories and the two
  wake-up interrupt factories are values of their type, pairwise different within it.
\<close>

theorem named_factories_succeed_and_differ:
  "WEAK = Inr (GPIODriveStrength_StrongValue GPIO_DRIVE_CAP_0) \<and>
   LESS_WEAK = Inr (GPIODriveStrength_StrongValue GPIO_DRIVE_CAP_1) \<and>
   MEDIUM = Inr (GPIODriveStrength_StrongValue GPIO_DRIVE_CAP_2) \<and>
   STRONGEST = Inr (GPIODriveStrength_StrongValue GPIO_DRIVE_CAP_3) \<and>
   distinct [WEAK, LESS_WEAK, MEDIUM, STRONGEST] \<and>
   DEFAULT = MEDIUM \<and>
   FLOATING = GPIOPullMode_StrongValue GPIO_FLOATING \<and>
   PULLUP = GPIOPullMode_StrongValue GPIO_PULLUP_ONLY \<and>
   PULLDOWN = GPIOPullMode_StrongValue GPIO_PULLDOWN_ONLY \<and>
   distinct [FLOATING, PULLUP, PULLDOWN] \<and>
   LOW_LEVEL = GPIOWakeupIntrType_StrongValue GPIO_INTR_LOW_LEVEL \<and>
   HIGH_LEVEL = GPIOWakeupIntrType_StrongValue GPIO_INTR_HIGH_LEVEL \<and>
   distinct [LOW_LEVEL, HIGH_LEVEL]"
  by (simp add: WEAK_def LESS_WEAK_def MEDIUM_def STRONGEST_def DEFAULT_def
      GPIODriveStrength_ctor_def isValidDriveStrengthPin_def
      GPIO_DRIVE_CAP_0_def GPIO_DRIVE_CAP_1_def GPIO_DRIVE_CAP_2_def GPIO_DRIVE_CAP_3_def
      GPIO_DRIVE_CAP_MAX_def FLOATING_def PULLUP_def PULLDOWN_def GPIOPullMode_ctor_def
      GPIO_FLOATING_def GPIO_PULLUP_ONLY_def GPIO_PULLDOWN_ONLY_def
      LOW_LEVEL_def HIGH_LEVEL_def GPIOWakeupIntrType_ctor_def
      GPIO_INTR_LOW_LEVEL_def GPIO_INTR_HIGH_LEVEL_def word_le_nat_alt)

text \<open>
  C6. On every \<^verbatim>\<open>PinInput\<close>, whatever the driver returns from \<^verbatim>\<open>gpio_get_level\<close>,
  \<^verbatim>\<open>getLevel()\<close> returns a level and throws nothing; the level is \<^verbatim>\<open>HIGH\<close> or \<^verbatim>\<open>LOW\<close>,
  \<^verbatim>\<open>HIGH\<close> exactly for a non-zero return value; one \<^verbatim>\<open>gpio_get_level\<close> call is issued.
\<close>

theorem getLevel_never_fails:
  "\<exists>l. PinInput_getLevel drv this tr =
          (Inr l,
           tr @ [(gpio_get_level (GPIONum_get_value (gpio_num (PinInput_GPIO this))),
                  drv tr (gpio_get_level (GPIONum_get_value (gpio_num (PinInput_GPIO this)))))]) \<and>
        (l = HIGH \<or> l = LOW) \<and>
        (l = HIGH \<longleftrightarrow>
           ret (drv tr (gpio_get_level (GPIONum_get_value (gpio_num (PinInput_GPIO this))))) \<noteq> 0)"
  by (simp add: PinInput_getLevel_def call_driver_def Let_def)

text \<open>
  C8. On the same pin, \<^verbatim>\<open>PinOutputInput::setFloating()\<close> and \<^verbatim>\<open>PinOutput::setHigh()\<close> are
  the same action: one \<^verbatim>\<open>gpio_set_level\<close> call on the pin with value 1, and the exception
  carrying the driver's status when that status is not success.
\<close>

theorem setFloating_is_setHigh:
  "PinOutputInput_setFloating drv (PinOutputInput_derived (PinInput_derived g)) tr =
     PinOutput_setHigh drv (PinOutput_derived g) tr \<and>
   PinOutput_setHigh drv (PinOutput_derived g) tr =
     (if ret (drv tr (gpio_set_level (GPIONum_get_value (gpio_num g)) 1)) \<noteq> ESP_OK
      then Inl (GPIOException (ret (drv tr (gpio_set_level (GPIONum_get_value (gpio_num g)) 1))))
      else Inr (),
      tr @ [(gpio_set_level (GPIONum_get_value (gpio_num g)) 1,
             drv tr (gpio_set_level (GPIONum_get_value (gpio_num g)) 1))])"
  by (simp add: PinOutputInput_setFloating_def PinOutput_setHigh_def GPIO_CHECK_THROW_eq)

lemma GPIO_getDriveStrength_eq:
  "GPIO_getDriveStrength drv this tr =
     (let c = gpio_get_drive_capability (GPIONum_get_value (gpio_num this)); r = drv tr c
      in (if ret r \<noteq> ESP_OK then Inl (GPIOException (ret r))
          else if strength_out r < GPIO_DRIVE_CAP_MAX
          then Inr (GPIODriveStrength_StrongValue (strength_out r))
          else Inl (GPIOException ESP_ERR_INVALID_ARG),
          tr @ [(c, r)]))"
  by (auto simp: GPIO_getDriveStrength_def call_driver_def CHECK_THROW_SPECIFIC_def Let_def
      GPIODriveStrength_ctor_def isValidDriveStrengthPin_def ESP_ERR_INVALID_ARG_not_OK)

text \<open>
  C9. When the driver's \<^verbatim>\<open>gpio_get_drive_capability\<close> succeeds, \<^verbatim>\<open>getDriveStrength()\<close>
  returns what the validating constructor makes of the reported code: for a code at or
  above \<^verbatim>\<open>GPIO_DRIVE_CAP_MAX\<close> it throws the \<^verbatim>\<open>GPIOException\<close> of the check although the
  driver call succeeded, and a value it returns always holds a code below the maximum.
\<close>

theorem getDriveStrength_revalidates:
  "(ret (drv tr (gpio_get_drive_capability (GPIONum_get_value (gpio_num this)))) = ESP_OK \<and>
    GPIO_DRIVE_CAP_MAX \<le>
      strength_out (drv tr (gpio_get_drive_capability (GPIONum_get_value (gpio_num this))))
    \<longrightarrow> fst (GPIO_getDriveStrength drv this tr) = Inl (GPIOException ESP_ERR_INVALID_ARG)) \<and>
   (ret (drv tr (gpio_get_drive_capability (GPIONum_get_value (gpio_num this)))) = ESP_OK
    \<longrightarrow> fst (GPIO_getDriveStrength drv this tr) =
          GPIODriveStrength_ctor
            (strength_out (drv tr (gpio_get_drive_capability (GPIONum_get_value (gpio_num this)))))) \<and>
   (\<forall>d. fst (GPIO_getDriveStrength drv this tr) = Inr d \<longrightarrow>
          GPIODriveStrength_get_value d < GPIO_DRIVE_CAP_MAX)"
  by (auto simp: GPIO_getDriveStrength_eq Let_def GPIODriveStrength_ctor_def
      isValidDriveStrengthPin_def ESP_ERR_INVALID_ARG_not_OK split: if_splits)

theorem getDriveStrength_revalidates_witness:
  "ret (reporting_driver 7 [] (gpio_get_drive_capability 3)) = ESP_OK \<and>
   GPIO_DRIVE_CAP_MAX \<le> strength_out (reporting_driver 7 [] (gpio_get_drive_capability 3)) \<and>
   fst (GPIO_getDriveStrength (reporting_driver 7) (GPIO_members (GPIONum_StrongValue 3)) []) =
     Inl (GPIOException ESP_ERR_INVALID_ARG) \<and>
   fst (GPIO_getDriveStrength (reporting_driver 2) (GPIO_members (GPIONum_StrongValue 3)) []) =
     Inr (GPIODriveStrength_StrongValue 2) \<and>
   GPIODriveStrength_get_value (GPIODriveStrength_StrongValue 2) < GPIO_DRIVE_CAP_MAX"
  using getDriveStrength_revalidates [of "reporting_driver 7" "[]" "GPIO_members (GPIONum_StrongValue 3)"]
    getDriveStrength_revalidates [of "reporting_driver 2" "[]" "GPIO_members (GPIONum_StrongValue 3)"]
  by (simp add: reporting_driver_def GPIO_DRIVE_CAP_MAX_def GPIODriveStrength_ctor_def
      isValidDriveStrengthPin_def)

section \<open>The invariant of the validated values\<close>

lemma GPIONumBase_Inr:
  "GPIONumBase cfg p = Inr n \<Longrightarrow>
   n = GPIONum_StrongValue p \<and> isValidPin cfg p = ESP_OK \<and>
   p < GPIO_NUM_MAX cfg \<and> p \<notin> set (INVALID_GPIOS (IDF_TARGET cfg))"
  by (auto simp: GPIONumBase_def isValidPin_eq Let_def ESP_ERR_INVALID_ARG_not_OK
      split: if_splits)

lemma GPIODriveStrength_ctor_Inr:
  "GPIODriveStrength_ctor s = Inr d \<Longrightarrow>
   d = GPIODriveStrength_StrongValue s \<and> isValidDriveStrengthPin s = ESP_OK \<and>
   s < GPIO_DRIVE_CAP_MAX"
  by (auto simp: GPIODriveStrength_ctor_def isValidDriveStrengthPin_def Let_def
      ESP_ERR_INVALID_ARG_not_OK split: if_splits)

lemma factories_valid:
  "f \<in> set [WEAK, LESS_WEAK, MEDIUM, STRONGEST, DEFAULT] \<Longrightarrow> f = Inr d \<Longrightarrow>
   GPIODriveStrength_get_value d < GPIO_DRIVE_CAP_MAX"
  by (auto simp: WEAK_def LESS_WEAK_def MEDIUM_def STRONGEST_def DEFAULT_def
      dest!: GPIODriveStrength_ctor_Inr [OF sym])

lemma getDriveStrength_valid:
  "fst (GPIO_getDriveStrength drv g tr) = Inr d \<Longrightarrow>
   GPIODriveStrength_get_value d < GPIO_DRIVE_CAP_MAX"
  by (auto simp: GPIO_getDriveStrength_eq Let_def split: if_splits)

lemma pin_objects_hold_their_number:
  "fst (PinOutput_ctor drv n tr) = Inr po \<Longrightarrow> gpio_num (PinOutput_GPIO po) = n"
  "fst (PinInput_ctor drv n tr) = Inr pi \<Longrightarrow> gpio_num (PinInput_GPIO pi) = n"
  "fst (PinOutputInput_ctor drv n tr) = Inr poi \<Longrightarrow>
   gpio_num (PinInput_GPIO (PinOutputInput_PinInput poi)) = n"
  by (auto simp: PinOutput_ctor_eq PinInput_ctor_eq PinOutputInput_ctor_eq Let_def
      split: if_splits)

lemma GPIO_CHECK_THROW_fst:
  "fst (GPIO_CHECK_THROW drv c tr) = CHECK_THROW_SPECIFIC (ret (drv tr c))"
  by (simp add: GPIO_CHECK_THROW_def call_driver_def Let_def)

text \<open>
  C7. Every value that the constructors, the factories and \<^verbatim>\<open>getDriveStrength()\<close> hand out
  holds a valid raw value: a \<^verbatim>\<open>GPIONum\<close> holds the number it was built from, which passes
  \<^verbatim>\<open>isValidPin\<close> (in range and not reserved); a \<^verbatim>\<open>GPIODriveStrength\<close>, also a named one
  or one read back from the driver, holds a code below \<^verbatim>\<open>GPIO_DRIVE_CAP_MAX\<close>; a pull mode
  and a wake-up interrupt type hold one of their enumerators. The check is the
  constructor's: a pin object stores the \<^verbatim>\<open>GPIONum\<close> it was given, and the outcome of every
  method is the check of the driver's status alone, whatever value the object holds. The
  objects are values: no method returns a changed one.
\<close>

theorem validated_values_stay_valid:
  "(\<forall>n. GPIONumBase cfg p = Inr n \<longrightarrow>
        GPIONum_get_value n = p \<and> isValidPin cfg (GPIONum_get_value n) = ESP_OK \<and>
        GPIONum_get_value n < GPIO_NUM_MAX cfg \<and>
        GPIONum_get_value n \<notin> set (INVALID_GPIOS (IDF_TARGET cfg))) \<and>
   (\<forall>d. GPIODriveStrength_ctor s = Inr d \<longrightarrow>
        GPIODriveStrength_get_value d = s \<and>
        isValidDriveStrengthPin (GPIODriveStrength_get_value d) = ESP_OK \<and>
        GPIODriveStrength_get_value d < GPIO_DRIVE_CAP_MAX) \<and>
   (\<forall>f\<in>set [WEAK, LESS_WEAK, MEDIUM, STRONGEST, DEFAULT]. \<forall>d. f = Inr d \<longrightarrow>
        GPIODriveStrength_get_value d < GPIO_DRIVE_CAP_MAX) \<and>
   (\<forall>d. fst (GPIO_getDriveStrength drv g tr) = Inr d \<longrightarrow>
        GPIODriveStrength_get_value d < GPIO_DRIVE_CAP_MAX) \<and>
   (\<forall>m\<in>set [FLOATING, PULLUP, PULLDOWN].
        GPIOPullMode_get_value m \<in> {GPIO_FLOATING, GPIO_PULLUP_ONLY, GPIO_PULLDOWN_ONLY}) \<and>
   (\<forall>i\<in>set [LOW_LEVEL, HIGH_LEVEL].
        GPIOWakeupIntrType_get_value i \<in> {GPIO_INTR_LOW_LEVEL, GPIO_INTR_HIGH_LEVEL}) \<and>
   (\<forall>po. fst (PinOutput_ctor drv n tr) = Inr po \<longrightarrow> gpio_num (PinOutput_GPIO po) = n) \<and>
   (\<forall>pi. fst (PinInput_ctor drv n tr) = Inr pi \<longrightarrow> gpio_num (PinInput_GPIO pi) = n) \<and>
   (\<forall>poi. fst (PinOutputInput_ctor drv n tr) = Inr poi \<longrightarrow>
        gpio_num (PinInput_GPIO (PinOutputInput_PinInput poi)) = n) \<and>
   fst (GPIO_holdEnable drv g tr) =
     CHECK_THROW_SPECIFIC (ret (drv tr (gpio_hold_en (GPIONum_get_value (gpio_num g))))) \<and>
   fst (GPIO_holdDisable drv g tr) =
     CHECK_THROW_SPECIFIC (ret (drv tr (gpio_hold_dis (GPIONum_get_value (gpio_num g))))) \<and>
   fst (GPIO_setDriveStrength drv g ds tr) =
     CHECK_THROW_SPECIFIC
       (ret (drv tr (gpio_set_drive_capability (GPIONum_get_value (gpio_num g))
                       (GPIODriveStrength_get_value ds)))) \<and>
   fst (PinOutput_setHigh drv (PinOutput_derived g) tr) =
     CHECK_THROW_SPECIFIC (ret (drv tr (gpio_set_level (GPIONum_get_value (gpio_num g)) 1))) \<and>
   fst (PinOutput_setLow drv (PinOutput_derived g) tr) =
     CHECK_THROW_SPECIFIC (ret (drv tr (gpio_set_level (GPIONum_get_value (gpio_num g)) 0))) \<and>
   fst (PinInput_setPullMode drv (PinInput_derived g) pm tr) =
     CHECK_THROW_SPECIFIC
       (ret (drv tr (gpio_set_pull_mode (GPIONum_get_value (gpio_num g))
                       (GPIOPullMode_get_value pm)))) \<and>
   fst (PinInput_wakeupEnable drv (PinInput_derived g) it tr) =
     CHECK_THROW_SPECIFIC
       (ret (drv tr (gpio_wakeup_enable (GPIONum_get_value (gpio_num g))
                       (GPIOWakeupIntrType_get_value it)))) \<and>
   fst (PinInput_wakeupDisable drv (PinInput_derived g) tr) =
     CHECK_THROW_SPECIFIC
       (ret (drv tr (gpio_wakeup_disable (GPIONum_get_value (gpio_num g))))) \<and>
   fst (PinOutputInput_setFloating drv (PinOutputInput_derived (PinInput_derived g)) tr) =
     CHECK_THROW_SPECIFIC (ret (drv tr (gpio_set_level (GPIONum_get_value (gpio_num g)) 1))) \<and>
   fst (PinOutputInput_setLow drv (PinOutputInput_derived (PinInput_derived g)) tr) =
     CHECK_THROW_SPECIFIC (ret (drv tr (gpio_set_level (GPIONum_get_value (gpio_num g)) 0)))"
proof -
  have nums: "\<forall>n. GPIONumBase cfg p = Inr n \<longrightarrow>
        GPIONum_get_value n = p \<and> isValidPin cfg (GPIONum_get_value n) = ESP_OK \<and>
        GPIONum_get_value n < GPIO_NUM_MAX cfg \<and>
        GPIONum_get_value n \<notin> set (INVALID_GPIOS (IDF_TARGET cfg))"
    by (auto dest!: GPIONumBase_Inr)
  have strengths: "\<forall>d. GPIODriveStrength_ctor s = Inr d \<longrightarrow>
        GPIODriveStrength_get_value d = s \<and>
        isValidDriveStrengthPin (GPIODriveStrength_get_value d) = ESP_OK \<and>
        GPIODriveStrength_get_value d < GPIO_DRIVE_CAP_MAX"
    by (auto dest!: GPIODriveStrength_ctor_Inr)
  have named: "\<forall>f\<in>set [WEAK, LESS_WEAK, MEDIUM, STRONGEST, DEFAULT]. \<forall>d. f = Inr d \<longrightarrow>
        GPIODriveStrength_get_value d < GPIO_DRIVE_CAP_MAX"
    using factories_valid by blast
  have read_back: "\<forall>d. fst (GPIO_getDriveStrength drv g tr) = Inr d \<longrightarrow>
        GPIODriveStrength_get_value d < GPIO_DRIVE_CAP_MAX"
    using getDriveStrength_valid by blast
  have pulls: "\<forall>m\<in>set [FLOATING, PULLUP, PULLDOWN].
        GPIOPullMode_get_value m \<in> {GPIO_FLOATING, GPIO_PULLUP_ONLY, GPIO_PULLDOWN_ONLY}"
    by (simp add: FLOATING_def PULLUP_def PULLDOWN_def GPIOPullMode_ctor_def)
  have intrs: "\<forall>i\<in>set [LOW_LEVEL, HIGH_LEVEL].
        GPIOWakeupIntrType_get_value i \<in> {GPIO_INTR_LOW_LEVEL, GPIO_INTR_HIGH_LEVEL}"
    by (simp add: LOW_LEVEL_def HIGH_LEVEL_def GPIOWakeupIntrType_ctor_def)
  have objects:
    "\<forall>po. fst (PinOutput_ctor drv n tr) = Inr po \<longrightarrow> gpio_num (PinOutput_GPIO po) = n"
    "\<forall>pi. fst (PinInput_ctor drv n tr) = Inr pi \<longrightarrow> gpio_num (PinInput_GPIO pi) = n"
    "\<forall>poi. fst (PinOutputInput_ctor drv n tr) = Inr poi \<longrightarrow>
        gpio_num (PinInput_GPIO (PinOutputInput_PinInput poi)) = n"
    using pin_objects_hold_their_number by blast+
  have methods:
    "fst (GPIO_holdEnable drv g tr) =
       CHECK_THROW_SPECIFIC (ret (drv tr (gpio_hold_en (GPIONum_get_value (gpio_num g)))))"
    "fst (GPIO_holdDisable drv g tr) =
       CHECK_THROW_SPECIFIC (ret (drv tr (gpio_hold_dis (GPIONum_get_value (gpio_num g)))))"
    "fst (GPIO_setDriveStrength drv g ds tr) =
       CHECK_THROW_SPECIFIC
         (ret (drv tr (gpio_set_drive_capability (GPIONum_get_value (gpio_num g))
                         (GPIODriveStrength_get_value ds))))"
    "fst (PinOutput_setHigh drv (PinOutput_derived g) tr) =
       CHECK_THROW_SPECIFIC (ret (drv tr (gpio_set_level (GPIONum_get_value (gpio_num g)) 1)))"
    "fst (PinOutput_setLow drv (PinOutput_derived g) tr) =
       CHECK_THROW_SPECIFIC (ret (drv tr (gpio_set_level (GPIONum_get_value (gpio_num g)) 0)))"
    "fst (PinInput_setPullMode drv (PinInput_derived g) pm tr) =
       CHECK_THROW_SPECIFIC
         (ret (drv tr (gpio_set_pull_mode (GPIONum_get_value (gpio_num g))
                         (GPIOPullMode_get_value pm))))"
    "fst (PinInput_wakeupEnable drv (PinInput_derived g) it tr) =
       CHECK_THROW_SPECIFIC
         (ret (drv tr (gpio_wakeup_enable (GPIONum_get_value (gpio_num g))
                         (GPIOWakeupIntrType_get_value it))))"
    "fst (PinInput_wakeupDisable drv (PinInput_derived g) tr) =
       CHECK_THROW_SPECIFIC
         (ret (drv tr (gpio_wakeup_disable (GPIONum_get_value (gpio_num g)))))"
    "fst (PinOutputInput_setFloating drv (PinOutputInput_derived (PinInput_derived g)) tr) =
       CHECK_THROW_SPECIFIC (ret (drv tr (gpio_set_level (GPIONum_get_value (gpio_num g)) 1)))"
    "fst (PinOutputInput_setLow drv (PinOutputInput_derived (PinInput_derived g)) tr) =
       CHECK_THROW_SPECIFIC (ret (drv tr (gpio_set_level (GPIONum_get_value (gpio_num g)) 0)))"
    by (simp_all add: GPIO_holdEnable_def GPIO_holdDisable_def GPIO_setDriveStrength_def
        PinOutput_setHigh_def PinOutput_setLow_def PinInput_setPullMode_def
        PinInput_wakeupEnable_def PinInput_wakeupDisable_def PinOutputInput_setFloating_def
        PinOutputInput_setLow_def GPIO_CHECK_THROW_fst)
  from nums strengths named read_back pulls intrs objects methods show ?thesis
    by (intro conjI)
qed

theorem validated_values_stay_valid_witness:
  "GPIONumBase example_build 3 = Inr (GPIONum_StrongValue 3) \<and>
   isValidPin example_build 3 = ESP_OK \<and>
   (3 :: uint32_t) < GPIO_NUM_MAX example_build \<and>
   (3 :: uint32_t) \<notin> set (INVALID_GPIOS (IDF_TARGET example_build)) \<and>
   GPIODriveStrength_ctor 3 = Inr (GPIODriveStrength_StrongValue 3) \<and>
   (3 :: uint32_t) < GPIO_DRIVE_CAP_MAX \<and>
   fst (GPIO_getDriveStrength (reporting_driver 2) (GPIO_members (GPIONum_StrongValue 3)) []) =
     Inr (GPIODriveStrength_StrongValue 2) \<and>
   (2 :: uint32_t) < GPIO_DRIVE_CAP_MAX \<and>
   fst (PinOutput_ctor (reporting_driver 2) (GPIONum_StrongValue 3) []) =
     Inr (PinOutput_derived (GPIO_members (GPIONum_StrongValue 3))) \<and>
   fst (PinInput_ctor (reporting_driver 2) (GPIONum_StrongValue 3) []) =
     Inr (PinInput_derived (GPIO_members (GPIONum_StrongValue 3))) \<and>
   fst (PinOutputInput_ctor (reporting_driver 2) (GPIONum_StrongValue 3) []) =
     Inr (PinOutputInput_derived (PinInput_derived (GPIO_members (GPIONum_StrongValue 3))))"
proof -
  have made: "GPIONumBase example_build 3 = Inr (GPIONum_StrongValue 3)"
    by (simp add: GPIONumBase_def isValidPin_def example_build_def ESP_OK_def
        ESP_ERR_INVALID_ARG_def)
  have strong: "GPIODriveStrength_ctor 3 = Inr (GPIODriveStrength_StrongValue 3)"
    by (simp add: GPIODriveStrength_ctor_def isValidDriveStrengthPin_def
        GPIO_DRIVE_CAP_MAX_def)
  have read: "fst (GPIO_getDriveStrength (reporting_driver 2)
                (GPIO_members (GPIONum_StrongValue 3)) []) =
              Inr (GPIODriveStrength_StrongValue 2)"
    by (simp add: GPIO_getDriveStrength_eq reporting_driver_def GPIO_DRIVE_CAP_MAX_def)
  have built:
    "fst (PinOutput_ctor (reporting_driver 2) (GPIONum_StrongValue 3) []) =
       Inr (PinOutput_derived (GPIO_members (GPIONum_StrongValue 3)))"
    "fst (PinInput_ctor (reporting_driver 2) (GPIONum_StrongValue 3) []) =
       Inr (PinInput_derived (GPIO_members (GPIONum_StrongValue 3)))"
    "fst (PinOutputInput_ctor (reporting_driver 2) (GPIONum_StrongValue 3) []) =
       Inr (PinOutputInput_derived (PinInput_derived (GPIO_members (GPIONum_StrongValue 3))))"
    by (simp_all add: PinOutput_ctor_eq PinInput_ctor_eq PinOutputInput_ctor_eq
        reporting_driver_def Let_def)
  from made strong read built
    validated_values_stay_valid [of example_build 3 3 "reporting_driver 2"
      "GPIO_members (GPIONum_StrongValue 3)" "[]" "GPIONum_StrongValue 3"]
  show ?thesis by simp
qed

section \<open>The calls of the \<^verbatim>\<open>PinOutputInput\<close> constructor\<close>

text \<open>
  C10 as stated fails: with a driver whose reset reports failure, constructing a
  \<^verbatim>\<open>PinOutputInput\<close> over the valid pin 3 issues one driver call, not three.
\<close>

theorem PinOutputInput_ctor_reset_failure:
  "GPIONumBase example_build 3 = Inr (GPIONum_StrongValue 3) \<and>
   PinOutputInput_of example_build (failing_driver (- 1)) 3 [] =
     (Inl (GPIOException (- 1)), [(gpio_reset_pin 3, \<lparr>ret = - 1, strength_out = 0\<rparr>)]) \<and>
   length (snd (PinOutputInput_of example_build (failing_driver (- 1)) 3 [])) = 1"
  by (simp add: PinOutputInput_of_def and_then_def eval_action_def GPIONumBase_def
      isValidPin_def example_build_def PinOutputInput_ctor_eq failing_driver_def
      ESP_OK_def ESP_ERR_INVALID_ARG_def Let_def)

text \<open>
  C10, as amended. The \<^verbatim>\<open>PinOutputInput\<close> constructor issues its driver calls in this order:
  reset of the pin, direction to input mode, direction to input/output open-drain mode,
  and stops at the first that reports a non-success status. When the reset and the
  input-mode call report success, so in every construction that succeeds, exactly these
  three calls are issued: the direction is programmed twice, and the driver answers the
  third call on a trace whose latest event is the input-mode programming.
\<close>

theorem PinOutputInput_ctor_three_calls:
  "let p = GPIONum_get_value n;
       c1 = gpio_reset_pin p; r1 = drv tr c1; tr1 = tr @ [(c1, r1)];
       c2 = gpio_set_direction p GPIO_MODE_INPUT; r2 = drv tr1 c2; tr2 = tr1 @ [(c2, r2)];
       c3 = gpio_set_direction p GPIO_MODE_INPUT_OUTPUT_OD; r3 = drv tr2 c3;
       out = PinOutputInput_ctor drv n tr
   in (ret r1 = ESP_OK \<and> ret r2 = ESP_OK \<longrightarrow>
         snd out = tr @ [(c1, r1), (c2, r2), (c3, r3)] \<and> last tr2 = (c2, r2)) \<and>
      ((\<exists>obj. fst out = Inr obj) \<longrightarrow>
         ret r1 = ESP_OK \<and> ret r2 = ESP_OK \<and> ret r3 = ESP_OK \<and>
         map fst (drop (length tr) (snd out)) = [c1, c2, c3]) \<and>
      (ret r1 \<noteq> ESP_OK \<longrightarrow> snd out = tr @ [(c1, r1)]) \<and>
      (ret r1 = ESP_OK \<and> ret r2 \<noteq> ESP_OK \<longrightarrow> snd out = tr @ [(c1, r1), (c2, r2)])"
  by (auto simp: PinOutputInput_ctor_eq Let_def split: if_splits)

theorem PinOutputInput_ctor_three_calls_witness:
  "ret (ok_driver [] (gpio_reset_pin 3)) = ESP_OK \<and>
   ret (ok_driver [(gpio_reset_pin 3, \<lparr>ret = 0, strength_out = 0\<rparr>)]
          (gpio_set_direction 3 GPIO_MODE_INPUT)) = ESP_OK \<and>
   GPIONumBase example_build 3 = Inr (GPIONum_StrongValue 3) \<and>
   PinOutputInput_ctor ok_driver (GPIONum_StrongValue 3) [] =
     (Inr (PinOutputInput_derived (PinInput_derived (GPIO_members (GPIONum_StrongValue 3)))),
      [(gpio_reset_pin 3, \<lparr>ret = 0, strength_out = 0\<rparr>),
       (gpio_set_direction 3 GPIO_MODE_INPUT, \<lparr>ret = 0, strength_out = 0\<rparr>),
       (gpio_set_direction 3 GPIO_MODE_INPUT_OUTPUT_OD, \<lparr>ret = 0, strength_out = 0\<rparr>)]) \<and>
   snd (PinOutputInput_ctor (failing_after 2 261) (GPIONum_StrongValue 3) []) =
     [(gpio_reset_pin 3, \<lparr>ret = 0, strength_out = 0\<rparr>),
      (gpio_set_direction 3 GPIO_MODE_INPUT, \<lparr>ret = 0, strength_out = 0\<rparr>),
      (gpio_set_direction 3 GPIO_MODE_INPUT_OUTPUT_OD, \<lparr>ret = 261, strength_out = 0\<rparr>)] \<and>
   snd (PinOutputInput_ctor (failing_after 1 261) (GPIONum_StrongValue 3) []) =
     [(gpio_reset_pin 3, \<lparr>ret = 0, strength_out = 0\<rparr>),
      (gpio_set_direction 3 GPIO_MODE_INPUT, \<lparr>ret = 261, strength_out = 0\<rparr>)]"
  using PinOutputInput_ctor_three_calls [of "GPIONum_StrongValue 3" ok_driver "[]"]
    PinOutputInput_ctor_three_calls [of "GPIONum_StrongValue 3" "failing_after 2 261" "[]"]
    PinOutputInput_ctor_three_calls [of "GPIONum_StrongValue 3" "failing_after 1 261" "[]"]
  by (simp add: PinOutputInput_ctor_eq ok_driver_def failing_after_def ESP_OK_0 Let_def
      GPIONumBase_def isValidPin_def example_build_def ESP_ERR_INVALID_ARG_def)

end
